theory Spec2Isabelle
  imports Main
begin

section \<open>The data the loader works on\<close>

text \<open>
  \<^verbatim>\<open>mvconfig.go\<close> walks the fields of a struct through Go's \<^verbatim>\<open>reflect\<close> package.
  The kinds are those of \<^verbatim>\<open>reflect.Kind\<close>, in its order (\<open>Int_kind\<close> is
  \<^verbatim>\<open>reflect.Int\<close>).
\<close>

datatype Kind = Invalid | Bool | Int_kind | Int8 | Int16 | Int32 | Int64
  | Uint | Uint8 | Uint16 | Uint32 | Uint64 | Uintptr
  | Float32 | Float64 | Complex64 | Complex128
  | Array | Chan | Func | Interface | Map | Pointer | Slice | String | Struct
  | UnsafePointer

text \<open>
  What \<^verbatim>\<open>t.Field(i)\<close> and \<^verbatim>\<open>e.Field(i)\<close> tell the loader about a field: its declared name,
  the kind of its type, its tag (the \<^verbatim>\<open>key:"value"\<close> pairs in the order written) and
  whether the field is exported. The loader takes the struct through a pointer, so the struct is
  addressable and \<^verbatim>\<open>CanSet\<close> holds exactly for exported fields. Names of a Go struct's
  fields are unique, apart from the blank name, which is never exported; hence
  \<^verbatim>\<open>e.FieldByName(t.Field(i).Name)\<close> can be set only when it is \<^verbatim>\<open>e.Field(i)\<close>.
\<close>

record StructField =
  sf_Name :: string
  sf_Kind :: Kind
  sf_Tag :: "(string \<times> string) list"
  sf_Exported :: bool

text \<open>\<^verbatim>\<open>reflect.StructTag.Lookup\<close>: the value of the first pair with the key, if any.\<close>

definition Lookup :: "(string \<times> string) list \<Rightarrow> string \<Rightarrow> string option" where
  "Lookup tag key = map_of tag key"

text \<open>
  The content of a field. \<open>'f\<close> stands for the 64-bit floating-point numbers, which are
  not modelled: \<open>Float32Val x\<close> is a \<^verbatim>\<open>float32\<close> field holding \<^verbatim>\<open>float32(x)\<close>.
\<close>

datatype 'f Value = StringVal string | IntVal int | BoolVal bool
  | Float32Val 'f | Float64Val 'f | OtherVal

type_synonym 'f Field = "StructField \<times> 'f Value"

text \<open>
  The argument \<^verbatim>\<open>envStruct interface{}\<close> of the entry points, by what
  \<^verbatim>\<open>reflect.ValueOf(envVar).Elem()\<close>, \<^verbatim>\<open>e.Type()\<close> and \<^verbatim>\<open>t.NumField()\<close> do with it.
\<close>

datatype 'f Target = NilInterface | NonPointer | NilPointer | PointerToNonStruct
  | PointerToStruct "'f Field list"

datatype error = errors_New string

record envTags =
  Name :: string
  Critical :: bool
  HasDefault :: bool
  Default :: string

section \<open>Library functions the loader calls\<close>

text \<open>
  \<^verbatim>\<open>strings.ToLower\<close> on bytes: the letters A to Z are mapped to a to z. On other
  runes Go's function may differ, but no rune outside ASCII has a lower case among the
  letters of \<^verbatim>\<open>"true"\<close>, \<^verbatim>\<open>"y"\<close> and \<^verbatim>\<open>"t"\<close>, the only strings the result is compared
  with.
\<close>

definition ToLower_char :: "char \<Rightarrow> char" where
  "ToLower_char c =
     (let n = (of_char c :: nat) in if 65 \<le> n \<and> n \<le> 90 then char_of (n + 32) else c)"

definition ToLower :: "string \<Rightarrow> string" where
  "ToLower s = map ToLower_char s"

text \<open>
  \<^verbatim>\<open>strconv.Atoi\<close>, for the 64-bit \<^verbatim>\<open>int\<close>: an optional sign, then at least one decimal
  digit and nothing else; the value must lie in \<open>-2^63 .. 2^63 - 1\<close>. \<open>None\<close> is
  the non-nil error.
\<close>

definition is_digit :: "char \<Rightarrow> bool" where
  "is_digit c = (let n = (of_char c :: nat) in 48 \<le> n \<and> n \<le> 57)"

definition digits_value :: "string \<Rightarrow> int" where
  "digits_value ds = foldl (\<lambda>n ch. n * 10 + (int (of_char ch) - 48)) 0 ds"

definition Atoi :: "string \<Rightarrow> int option" where
  "Atoi s =
     (case s of
        [] \<Rightarrow> None
      | c # cs \<Rightarrow>
          (let ds = (if c = CHR ''-'' \<or> c = CHR ''+'' then cs else s) in
           if ds = [] then None
           else if list_all is_digit ds then
             (let n = (if c = CHR ''-'' then - digits_value ds else digits_value ds) in
              if - (2 ^ 63) \<le> n \<and> n < 2 ^ 63 then Some n else None)
           else None))"

text \<open>
  \<^verbatim>\<open>strconv.ParseBool\<close>:
  \<^verbatim>\<open>
  switch str {
  case "1", "t", "T", "true", "TRUE", "True":
      return true, nil
  case "0", "f", "F", "false", "FALSE", "False":
      return false, nil
  }
  return false, syntaxError("ParseBool", str)
  \<close>
\<close>

definition ParseBool :: "string \<Rightarrow> bool option" where
  "ParseBool str =
     (if str = ''1'' \<or> str = ''t'' \<or> str = ''T'' \<or> str = ''true'' \<or> str = ''TRUE''
         \<or> str = ''True'' then Some True
      else if str = ''0'' \<or> str = ''f'' \<or> str = ''F'' \<or> str = ''false'' \<or> str = ''FALSE''
         \<or> str = ''False'' then Some False
      else None)"

text \<open>
  \<^verbatim>\<open>reflect.Value.SetInt\<close> stores its 64-bit argument converted to the field's type, which
  cuts it to the width of the field.
\<close>

definition SetInt :: "Kind \<Rightarrow> int \<Rightarrow> 'f Value" where
  "SetInt k x =
     IntVal (if k = Int8 then signed_take_bit 7 x
             else if k = Int16 then signed_take_bit 15 x
             else if k = Int32 then signed_take_bit 31 x
             else signed_take_bit 63 x)"

definition CanSet :: "StructField \<Rightarrow> bool" where
  "CanSet f = sf_Exported f"

section \<open>The loader\<close>

text \<open>\<^verbatim>\<open>getTags\<close>: the tag values of a field. Its error is always \<^verbatim>\<open>nil\<close>.\<close>

definition getTags :: "StructField \<Rightarrow> envTags \<times> error option" where
  "getTags f =
     (let e = \<lparr>Name = sf_Name f, Critical = False, HasDefault = False, Default = ''''\<rparr>;
          e = (case Lookup (sf_Tag f) ''mvenv'' of Some v \<Rightarrow> e\<lparr>Name := v\<rparr> | None \<Rightarrow> e);
          e = (case Lookup (sf_Tag f) ''crit'' of
                 Some crit \<Rightarrow>
                   (let crit = ToLower crit in
                    if crit = ''true'' \<or> crit = ''y'' \<or> crit = ''t''
                    then e\<lparr>Critical := True\<rparr> else e)
               | None \<Rightarrow> e);
          e = (case Lookup (sf_Tag f) ''def'' of
                 Some defval \<Rightarrow> e\<lparr>HasDefault := True, Default := defval\<rparr>
               | None \<Rightarrow> e)
      in (e, None))"

text \<open>
  \<^verbatim>\<open>getEnvValue\<close>: the value from the environment, the properties or the default.
  \<open>env\<close> is \<^verbatim>\<open>os.LookupEnv\<close>, \<open>props\<close> is \<^verbatim>\<open>nil\<close> (\<open>None\<close>) or the function
  \<^verbatim>\<open>props.Get\<close>. The result is the triple the Go function returns. (The Go function
  also prints the name and the value found in the environment on standard output.)
\<close>

definition getEnvValue ::
  "envTags \<Rightarrow> (string \<rightharpoonup> string) \<Rightarrow> (string \<rightharpoonup> string) option \<Rightarrow> string
     \<Rightarrow> string \<times> error option \<times> bool" where
  "getEnvValue eTags env props prefix =
     (let name = Name eTags;
          name = (if prefix \<noteq> '''' then prefix @ ''_'' @ name else name)
      in case env name of
           Some v \<Rightarrow> (v, None, True)
         | None \<Rightarrow>
             (case (case props of Some p \<Rightarrow> p name | None \<Rightarrow> None) of
                Some v \<Rightarrow> (v, None, True)
              | None \<Rightarrow>
                  if HasDefault eTags then (Default eTags, None, True)
                  else if Critical eTags then
                    ('''',
                     Some (errors_New (''Critical Config field '' @ name
                                        @ '' missing from the environment'')),
                     False)
                  else ('''', None, False)))"

text \<open>
  One turn of the loop of \<^verbatim>\<open>manageFields\<close>, for the field of index \<open>i\<close>: either the
  function returns an error, or the loop goes on with the struct as this turn leaves
  it. \<open>ParseFloat\<close> is \<^verbatim>\<open>strconv.ParseFloat(_, 64)\<close>, \<open>None\<close> for a non-nil error.
\<close>

datatype 'f turn = Continue "'f Field list" | ReturnError error

definition manageField ::
  "(string \<Rightarrow> 'f option) \<Rightarrow> (string \<rightharpoonup> string) \<Rightarrow> (string \<rightharpoonup> string) option \<Rightarrow> string
     \<Rightarrow> nat \<Rightarrow> 'f Field list \<Rightarrow> 'f turn" where
  "manageField ParseFloat env props prefix i e =
     (let f = fst (e ! i) in
      case getTags f of (eTags, err) \<Rightarrow>
        if err = None then
          (case getEnvValue eTags env props prefix of (val, err, ok) \<Rightarrow>
             if ok then
               (if CanSet f then
                  (if sf_Kind f = String then Continue (e[i := (f, StringVal val)])
                   else if sf_Kind f = Int_kind \<or> sf_Kind f = Int8 \<or> sf_Kind f = Int32
                           \<or> sf_Kind f = Int64 then
                     (case Atoi val of
                        None \<Rightarrow> ReturnError (errors_New (''Error converting field ''
                                                          @ Name eTags @ '' to int''))
                      | Some n \<Rightarrow> Continue (e[i := (f, SetInt (sf_Kind f) n)]))
                   else if sf_Kind f = Bool then
                     (case ParseBool val of
                        None \<Rightarrow> ReturnError (errors_New (''Error converting field ''
                                                          @ Name eTags @ '' to bool''))
                      | Some b \<Rightarrow> Continue (e[i := (f, BoolVal b)]))
                   else if sf_Kind f = Float32 \<or> sf_Kind f = Float32 then
                     (case ParseFloat val of
                        None \<Rightarrow> ReturnError (errors_New (''Error converting field ''
                                                          @ Name eTags @ '' to float''))
                      | Some x \<Rightarrow> Continue (e[i := (f, Float32Val x)]))
                   else Continue e)
                else Continue e)
             else (case err of Some er \<Rightarrow> ReturnError er | None \<Rightarrow> Continue e))
        else Continue e)"

text \<open>
  The loop \<^verbatim>\<open>for i := 0; i < t.NumField(); i++\<close>, from index \<open>i\<close> on, with \<open>n\<close> the
  number of fields. The result is the error returned (\<open>None\<close> for \<^verbatim>\<open>nil\<close>) and the
  struct as the function leaves it.
\<close>

function manageFields_loop ::
  "(string \<Rightarrow> 'f option) \<Rightarrow> (string \<rightharpoonup> string) \<Rightarrow> (string \<rightharpoonup> string) option \<Rightarrow> string
     \<Rightarrow> nat \<Rightarrow> nat \<Rightarrow> 'f Field list \<Rightarrow> error option \<times> 'f Field list" where
  "manageFields_loop ParseFloat env props prefix n i e =
     (if i < n then
        (case manageField ParseFloat env props prefix i e of
           ReturnError err \<Rightarrow> (Some err, e)
         | Continue e' \<Rightarrow> manageFields_loop ParseFloat env props prefix n (Suc i) e')
      else (None, e))"
  by pat_completeness auto
termination
  by (relation "measure (\<lambda>(ParseFloat, env, props, prefix, n, i, e). n - i)") auto

text \<open>
  \<^verbatim>\<open>manageFields\<close>. \<^verbatim>\<open>reflect.ValueOf(envVar).Elem()\<close> panics unless \<^verbatim>\<open>envVar\<close> is a
  pointer; on a nil pointer it is the zero Value, on which \<^verbatim>\<open>Type()\<close> panics; and
  \<^verbatim>\<open>NumField()\<close> panics on a type that is not a struct.
\<close>

datatype 'f outcome = Panic | Return "error option" "'f Field list"

definition manageFields ::
  "(string \<Rightarrow> 'f option) \<Rightarrow> (string \<rightharpoonup> string) \<Rightarrow> 'f Target \<Rightarrow> (string \<rightharpoonup> string) option
     \<Rightarrow> string \<Rightarrow> 'f outcome" where
  "manageFields ParseFloat env envVar props prefix =
     (case envVar of
        PointerToStruct e \<Rightarrow>
          (case manageFields_loop ParseFloat env props prefix (length e) 0 e of
             (err, e') \<Rightarrow> Return err e')
      | NilInterface \<Rightarrow> Panic
      | NonPointer \<Rightarrow> Panic
      | NilPointer \<Rightarrow> Panic
      | PointerToNonStruct \<Rightarrow> Panic)"

text \<open>
  \<^verbatim>\<open>loadVariables\<close> and the four entry points. \<open>LoadFile\<close> is
  \<^verbatim>\<open>properties.LoadFile(_, properties.UTF8)\<close>: an error, or the properties of the file.
\<close>

definition loadVariables ::
  "(string \<Rightarrow> 'f option) \<Rightarrow> (string \<rightharpoonup> string) \<Rightarrow> (string \<Rightarrow> error + (string \<rightharpoonup> string))
     \<Rightarrow> 'f Target \<Rightarrow> string \<Rightarrow> string \<Rightarrow> 'f outcome" where
  "loadVariables ParseFloat env LoadFile envStruct prefix fileName =
     (let props = (case LoadFile fileName of Inl err \<Rightarrow> None | Inr p \<Rightarrow> Some p)
      in manageFields ParseFloat env envStruct props prefix)"

definition LoadVariables where
  "LoadVariables ParseFloat env LoadFile envStruct =
     loadVariables ParseFloat env LoadFile envStruct '''' ''app.properties''"

definition LoadVariablesWithProps where
  "LoadVariablesWithProps ParseFloat env LoadFile envStruct fileName =
     loadVariables ParseFloat env LoadFile envStruct '''' fileName"

definition LoadVariablesWithPrefix where
  "LoadVariablesWithPrefix ParseFloat env LoadFile envStruct prefix =
     loadVariables ParseFloat env LoadFile envStruct prefix ''app.properties''"

definition LoadVariablesWithPrefixAndProps where
  "LoadVariablesWithPrefixAndProps ParseFloat env LoadFile envStruct prefix fileName =
     loadVariables ParseFloat env LoadFile envStruct prefix fileName"

section \<open>Example inputs\<close>

text \<open>
  A \<^verbatim>\<open>ParseFloat\<close> for structs without floating-point fields, a file system without
  properties files, and the schema of the specification's scenarios: a \<^verbatim>\<open>Port\<close> with
  a default, a mandatory \<^verbatim>\<open>Host\<close> and a \<^verbatim>\<open>Debug\<close> flag with a default.
\<close>

definition no_ParseFloat :: "string \<Rightarrow> unit option" where
  "no_ParseFloat s = None"

definition no_file :: "string \<Rightarrow> error + (string \<rightharpoonup> string)" where
  "no_file fileName = Inl (errors_New ''no such file'')"

definition example_schema :: "unit Field list" where
  "example_schema =
     [(\<lparr>sf_Name = ''Port'', sf_Kind = Int_kind, sf_Tag = [(''def'', ''8080'')],
        sf_Exported = True\<rparr>, IntVal 0),
      (\<lparr>sf_Name = ''Host'', sf_Kind = String,
        sf_Tag = [(''mvenv'', ''HOST''), (''crit'', ''True'')], sf_Exported = True\<rparr>,
       StringVal ''''),
      (\<lparr>sf_Name = ''Debug'', sf_Kind = Bool, sf_Tag = [(''def'', ''false'')],
        sf_Exported = True\<rparr>, BoolVal True)]"

definition crit_default_schema :: "unit Field list" where
  "crit_default_schema =
     [(\<lparr>sf_Name = ''Host'', sf_Kind = String,
        sf_Tag = [(''crit'', ''true''), (''def'', ''localhost'')], sf_Exported = True\<rparr>,
       StringVal '''')]"

definition debug_schema :: "unit Field list" where
  "debug_schema =
     [(\<lparr>sf_Name = ''Debug'', sf_Kind = Bool, sf_Tag = [(''mvenv'', ''DEBUG'')],
        sf_Exported = True\<rparr>, BoolVal False)]"

section \<open>Properties of the loop\<close>

declare manageFields_loop.simps [simp del]

lemma getTags_error: "snd (getTags f) = None"
  by (simp add: getTags_def Let_def)

lemma getTags_Name:
  "Name (fst (getTags f)) = (case Lookup (sf_Tag f) ''mvenv'' of Some v \<Rightarrow> v | None \<Rightarrow> sf_Name f)"
  by (simp add: getTags_def Let_def split: option.splits)

lemma getTags_HasDefault:
  "HasDefault (fst (getTags f)) = (Lookup (sf_Tag f) ''def'' \<noteq> None)"
  by (simp add: getTags_def Let_def split: option.splits)

lemma getTags_Default:
  "Lookup (sf_Tag f) ''def'' = Some d \<Longrightarrow> Default (fst (getTags f)) = d"
  by (simp add: getTags_def Let_def split: option.splits)

lemma manageField_length:
  "manageField PF env props prefix i e = Continue e' \<Longrightarrow> length e' = length e"
  by (auto simp: manageField_def Let_def split: prod.splits if_splits option.splits)

lemma manageField_other:
  "manageField PF env props prefix i e = Continue e' \<Longrightarrow> j \<noteq> i \<Longrightarrow> e' ! j = e ! j"
  by (auto simp: manageField_def Let_def split: prod.splits if_splits option.splits)

lemma loop_outside:
  "manageFields_loop PF env props prefix n i e = (r, e') \<Longrightarrow> j < i \<or> n \<le> j \<Longrightarrow> e' ! j = e ! j"
proof (induction PF env props prefix n i e rule: manageFields_loop.induct)
  case (1 PF env props prefix n i e)
  show ?case
  proof (cases "i < n")
    case False
    with "1.prems" show ?thesis by (simp add: manageFields_loop.simps)
  next
    case True
    show ?thesis
    proof (cases "manageField PF env props prefix i e")
      case (ReturnError err)
      with True "1.prems" show ?thesis by (simp add: manageFields_loop.simps)
    next
      case (Continue e1)
      with True "1.prems" have run: "manageFields_loop PF env props prefix n (Suc i) e1 = (r, e')"
        by (simp add: manageFields_loop.simps)
      from True "1.prems"(2) have "j < Suc i \<or> n \<le> j" and "j \<noteq> i" by auto
      with "1.IH" [OF True Continue run] manageField_other [OF Continue]
      show ?thesis by simp
    qed
  qed
qed

lemma loop_length:
  "manageFields_loop PF env props prefix n i e = (r, e') \<Longrightarrow> length e' = length e"
proof (induction PF env props prefix n i e rule: manageFields_loop.induct)
  case (1 PF env props prefix n i e)
  then show ?case
    by (cases "i < n"; cases "manageField PF env props prefix i e")
       (auto simp: manageFields_loop.simps [of PF env props prefix n i e] dest: manageField_length)
qed

lemma loop_split:
  "i \<le> k \<Longrightarrow> k \<le> n \<Longrightarrow>
   manageFields_loop PF env props prefix n i e =
     (case manageFields_loop PF env props prefix k i e of
        (None, ek) \<Rightarrow> manageFields_loop PF env props prefix n k ek
      | (Some err, ek) \<Rightarrow> (Some err, ek))"
proof (induction PF env props prefix k i e rule: manageFields_loop.induct)
  case (1 PF env props prefix k i e)
  show ?case
  proof (cases "i < k")
    case False
    with "1.prems" have "i = k" by simp
    then show ?thesis by (simp add: manageFields_loop.simps [of PF env props prefix k k e])
  next
    case True
    with "1.prems" have in': "i < n" by simp
    show ?thesis
    proof (cases "manageField PF env props prefix i e")
      case (ReturnError err)
      with True in' show ?thesis
        by (simp add: manageFields_loop.simps [of PF env props prefix _ i e])
    next
      case (Continue e1)
      from True have "Suc i \<le> k" by simp
      from "1.IH" [OF True Continue this "1.prems"(2)] True in' Continue
      show ?thesis
        by (simp add: manageFields_loop.simps [of PF env props prefix _ i e])
    qed
  qed
qed

lemma manageFields_at_field:
  assumes "i < length e0"
    and "manageFields_loop PF env props prefix i 0 e0 = (None, e)"
  shows "manageFields PF env (PointerToStruct e0) props prefix =
           (case manageField PF env props prefix i e of
              ReturnError err \<Rightarrow> Return (Some err) e
            | Continue e1 \<Rightarrow>
                (case manageFields_loop PF env props prefix (length e0) (Suc i) e1 of
                   (r, e') \<Rightarrow> Return r e'))"
    and "e ! i = e0 ! i" and "length e = length e0"
proof -
  from assms(1) have "0 \<le> i" "i \<le> length e0" by simp_all
  from loop_split [OF this, of PF env props prefix e0] assms(2)
  have "manageFields_loop PF env props prefix (length e0) 0 e0 =
          manageFields_loop PF env props prefix (length e0) i e"
    by simp
  with assms(1) show "manageFields PF env (PointerToStruct e0) props prefix =
           (case manageField PF env props prefix i e of
              ReturnError err \<Rightarrow> Return (Some err) e
            | Continue e1 \<Rightarrow>
                (case manageFields_loop PF env props prefix (length e0) (Suc i) e1 of
                   (r, e') \<Rightarrow> Return r e'))"
    by (simp add: manageFields_def manageFields_loop.simps [of PF env props prefix _ i e]
        split: turn.splits)
  from loop_outside [OF assms(2), of i] show "e ! i = e0 ! i" by simp
  from loop_length [OF assms(2)] show "length e = length e0" .
qed

lemma manageField_missing_critical:
  assumes "Critical (fst (getTags (fst (e ! i))))"
    and "\<not> HasDefault (fst (getTags (fst (e ! i))))"
    and "env name = None"
    and "(case props of Some p \<Rightarrow> p name | None \<Rightarrow> None) = None"
    and "name = (if prefix = '''' then Name (fst (getTags (fst (e ! i))))
                 else prefix @ ''_'' @ Name (fst (getTags (fst (e ! i)))))"
  shows "manageField PF env props prefix i e =
           ReturnError (errors_New (''Critical Config field '' @ name
                                     @ '' missing from the environment''))"
proof -
  obtain eTags where t: "getTags (fst (e ! i)) = (eTags, None)"
    using getTags_error [of "fst (e ! i)"] by (cases "getTags (fst (e ! i))") simp
  then have tags: "fst (getTags (fst (e ! i))) = eTags" by simp
  from assms(5) have name: "(if prefix \<noteq> '''' then prefix @ ''_'' @ Name eTags
                             else Name eTags) = name"
    by (simp add: tags)
  from assms(1,2,3,4) have "getEnvValue eTags env props prefix =
      ('''', Some (errors_New (''Critical Config field '' @ name
                                @ '' missing from the environment'')), False)"
    unfolding getEnvValue_def Let_def name tags by simp
  with t show ?thesis by (simp add: manageField_def Let_def)
qed

lemma Atoi_8080: "Atoi ''8080'' = Some 8080"
  by (simp add: Atoi_def is_digit_def digits_value_def)

lemma example_first_turn:
  "manageFields_loop no_ParseFloat (map_of []) None '''' 1 0 example_schema =
     (None, example_schema[0 := (fst (example_schema ! 0), IntVal 8080)])"
  by (simp add: manageFields_loop.simps manageField_def example_schema_def getTags_def
      Lookup_def getEnvValue_def Let_def CanSet_def Atoi_8080 SetInt_def)

lemma manageField_critical_error:
  assumes "manageField PF env props prefix i e =
             ReturnError (errors_New (''Critical Config field '' @ nm
                                       @ '' missing from the environment''))"
  shows "\<not> HasDefault (fst (getTags (fst (e ! i))))
         \<and> Critical (fst (getTags (fst (e ! i))))
         \<and> nm = (if prefix = '''' then Name (fst (getTags (fst (e ! i))))
                  else prefix @ ''_'' @ Name (fst (getTags (fst (e ! i)))))
         \<and> env nm = None
         \<and> (case props of Some p \<Rightarrow> p nm | None \<Rightarrow> None) = None"
proof -
  obtain eTags where t: "getTags (fst (e ! i)) = (eTags, None)"
    using getTags_error [of "fst (e ! i)"] by (cases "getTags (fst (e ! i))") simp
  define name where "name = (if prefix = '''' then Name eTags else prefix @ ''_'' @ Name eTags)"
  have eq: "(if prefix \<noteq> '''' then prefix @ ''_'' @ Name eTags else Name eTags) = name"
    by (simp add: name_def)
  define pv where "pv = (case props of Some p \<Rightarrow> p name | None \<Rightarrow> None)"
  have g: "getEnvValue eTags env props prefix =
     (case env name of
        Some v \<Rightarrow> (v, None, True)
      | None \<Rightarrow>
          (case pv of
             Some v \<Rightarrow> (v, None, True)
           | None \<Rightarrow>
               if HasDefault eTags then (Default eTags, None, True)
               else if Critical eTags then
                 ('''', Some (errors_New (''Critical Config field '' @ name
                                     @ '' missing from the environment'')), False)
               else ('''', None, False)))"
    unfolding getEnvValue_def Let_def eq pv_def ..
  obtain v er ok where r: "getEnvValue eTags env props prefix = (v, er, ok)"
    by (cases "getEnvValue eTags env props prefix") auto
  from assms t r have "\<not> ok \<and> er = Some (errors_New (''Critical Config field '' @ nm
                                       @ '' missing from the environment''))"
    by (auto simp: manageField_def Let_def split: if_splits option.splits)
  with r [unfolded g]
  have res: "\<not> HasDefault eTags \<and> Critical eTags \<and> nm = name \<and> env name = None
      \<and> pv = None"
    by (auto split: option.splits if_splits)
  then have nm: "nm = name" by simp
  from t have tg: "fst (getTags (fst (e ! i))) = eTags" by simp
  from res show ?thesis
    unfolding nm tg name_def [symmetric] pv_def [symmetric] by simp
qed

lemma loop_critical_error:
  "manageFields_loop PF env props prefix n i e =
     (Some (errors_New (''Critical Config field '' @ nm @ '' missing from the environment'')),
      e') \<Longrightarrow>
   \<exists>k. i \<le> k \<and> k < n
       \<and> \<not> HasDefault (fst (getTags (fst (e ! k))))
       \<and> Critical (fst (getTags (fst (e ! k))))
       \<and> nm = (if prefix = '''' then Name (fst (getTags (fst (e ! k))))
                else prefix @ ''_'' @ Name (fst (getTags (fst (e ! k)))))
       \<and> env nm = None
       \<and> (case props of Some p \<Rightarrow> p nm | None \<Rightarrow> None) = None"
proof (induction PF env props prefix n i e rule: manageFields_loop.induct)
  case (1 PF env props prefix n i e)
  show ?case
  proof (cases "i < n")
    case False
    with "1.prems" show ?thesis by (simp add: manageFields_loop.simps)
  next
    case True
    show ?thesis
    proof (cases "manageField PF env props prefix i e")
      case (ReturnError err)
      with True "1.prems" have "manageField PF env props prefix i e =
          ReturnError (errors_New (''Critical Config field '' @ nm
                                    @ '' missing from the environment''))"
        by (simp add: manageFields_loop.simps)
      from manageField_critical_error [OF this] True show ?thesis by blast
    next
      case (Continue e1)
      with True "1.prems" have "manageFields_loop PF env props prefix n (Suc i) e1 =
          (Some (errors_New (''Critical Config field '' @ nm
                              @ '' missing from the environment'')), e')"
        by (simp add: manageFields_loop.simps)
      from "1.IH" [OF True Continue this] obtain k where k: "Suc i \<le> k" "k < n"
        "\<not> HasDefault (fst (getTags (fst (e1 ! k))))"
        "Critical (fst (getTags (fst (e1 ! k))))"
        "nm = (if prefix = '''' then Name (fst (getTags (fst (e1 ! k))))
                else prefix @ ''_'' @ Name (fst (getTags (fst (e1 ! k)))))"
        "env nm = None"
        "(case props of Some p \<Rightarrow> p nm | None \<Rightarrow> None) = None"
        by blast
      from k(1) have "k \<noteq> i" by simp
      from manageField_other [OF Continue this] have "e1 ! k = e ! k" .
      with k have "i \<le> k \<and> k < n
       \<and> \<not> HasDefault (fst (getTags (fst (e ! k))))
       \<and> Critical (fst (getTags (fst (e ! k))))
       \<and> nm = (if prefix = '''' then Name (fst (getTags (fst (e ! k))))
                else prefix @ ''_'' @ Name (fst (getTags (fst (e ! k)))))
       \<and> env nm = None
       \<and> (case props of Some p \<Rightarrow> p nm | None \<Rightarrow> None) = None"
        by simp
      then show ?thesis ..
    qed
  qed
qed

lemma ToLower_True: "ToLower ''True'' = ''true''"
  by code_simp

lemma example_missing_host:
  "manageFields no_ParseFloat (map_of []) (PointerToStruct example_schema) None '''' =
     Return (Some (errors_New ''Critical Config field HOST missing from the environment''))
       [(fst (example_schema ! 0), IntVal 8080), example_schema ! 1, example_schema ! 2]"
  by (simp add: manageFields_def manageFields_loop.simps manageField_def example_schema_def
      getTags_def Lookup_def getEnvValue_def Let_def CanSet_def Atoi_8080 SetInt_def
      ToLower_True)

lemma example_with_host:
  "manageFields no_ParseFloat (map_of [(''HOST'', ''example.com'')])
      (PointerToStruct example_schema) None '''' =
     Return None
       [(fst (example_schema ! 0), IntVal 8080),
        (fst (example_schema ! 1), StringVal ''example.com''),
        (fst (example_schema ! 2), BoolVal False)]"
  by (simp add: manageFields_def manageFields_loop.simps manageField_def example_schema_def
      getTags_def Lookup_def getEnvValue_def Let_def CanSet_def Atoi_8080 SetInt_def
      ParseBool_def)

lemma example_two_turns:
  "manageFields_loop no_ParseFloat (map_of [(''HOST'', ''example.com'')]) None '''' 2 0
      example_schema =
     (None, [(fst (example_schema ! 0), IntVal 8080),
             (fst (example_schema ! 1), StringVal ''example.com''), example_schema ! 2])"
  by (simp add: manageFields_loop.simps manageField_def example_schema_def getTags_def
      Lookup_def getEnvValue_def Let_def CanSet_def Atoi_8080 SetInt_def numeral_2_eq_2)

section \<open>Source priority\<close>

text \<open>
  C1. The string a field gets is the first hit in a fixed order: the value of the
  environment if the (prefixed) lookup name is set there; otherwise the value of the
  properties, if there are properties and they have the key; otherwise the default, if
  the descriptor declares one. The default is the string of the \<^verbatim>\<open>def\<close> tag as it is
  written, the empty string included.
\<close>

theorem getEnvValue_source_priority:
  "(let name = (if prefix = '''' then Name eTags else prefix @ ''_'' @ Name eTags) in
     (env name = Some v \<longrightarrow> getEnvValue eTags env props prefix = (v, None, True)) \<and>
     (env name = None \<and> props = Some p \<and> p name = Some v \<longrightarrow>
        getEnvValue eTags env props prefix = (v, None, True)) \<and>
     (env name = None \<and> (props = None \<or> props = Some p \<and> p name = None) \<and> HasDefault eTags \<longrightarrow>
        getEnvValue eTags env props prefix = (Default eTags, None, True)))
   \<and> (Lookup (sf_Tag f) ''def'' = Some d \<longrightarrow>
        HasDefault (fst (getTags f)) \<and> Default (fst (getTags f)) = d)"
  by (auto simp: getEnvValue_def Let_def getTags_HasDefault getTags_Default)

theorem getEnvValue_source_priority_witness:
  "getEnvValue (fst (getTags \<lparr>sf_Name = ''Port'', sf_Kind = Int_kind,
        sf_Tag = [(''def'', '''')], sf_Exported = True\<rparr>))
      (map_of [(''APP_Port'', ''8080'')]) (Some (map_of [(''APP_Port'', ''9090'')])) ''APP''
     = (''8080'', None, True)
   \<and> getEnvValue (fst (getTags \<lparr>sf_Name = ''Port'', sf_Kind = Int_kind,
        sf_Tag = [(''def'', '''')], sf_Exported = True\<rparr>))
      (map_of []) (Some (map_of [(''APP_Port'', ''9090'')])) ''APP''
     = (''9090'', None, True)
   \<and> getEnvValue (fst (getTags \<lparr>sf_Name = ''Port'', sf_Kind = Int_kind,
        sf_Tag = [(''def'', '''')], sf_Exported = True\<rparr>))
      (map_of []) None ''APP''
     = ('''', None, True)"
  using getEnvValue_source_priority
    [of "''APP''" "fst (getTags \<lparr>sf_Name = ''Port'', sf_Kind = Int_kind,
        sf_Tag = [(''def'', '''')], sf_Exported = True\<rparr>)"
        "map_of [(''APP_Port'', ''8080'')]" "''8080''" "Some (map_of [(''APP_Port'', ''9090'')])"
        "map_of [(''APP_Port'', ''9090'')]"
        "\<lparr>sf_Name = ''Port'', sf_Kind = Int_kind,
        sf_Tag = [(''def'', '''')], sf_Exported = True\<rparr>" "''''"]
    getEnvValue_source_priority
    [of "''APP''" "fst (getTags \<lparr>sf_Name = ''Port'', sf_Kind = Int_kind,
        sf_Tag = [(''def'', '''')], sf_Exported = True\<rparr>)"
        "map_of []" "''9090''" "Some (map_of [(''APP_Port'', ''9090'')])"
        "map_of [(''APP_Port'', ''9090'')]"
        "\<lparr>sf_Name = ''Port'', sf_Kind = Int_kind,
        sf_Tag = [(''def'', '''')], sf_Exported = True\<rparr>" "''''"]
    getEnvValue_source_priority
    [of "''APP''" "fst (getTags \<lparr>sf_Name = ''Port'', sf_Kind = Int_kind,
        sf_Tag = [(''def'', '''')], sf_Exported = True\<rparr>)"
        "map_of []" "''''" "None"
        "map_of []"
        "\<lparr>sf_Name = ''Port'', sf_Kind = Int_kind,
        sf_Tag = [(''def'', '''')], sf_Exported = True\<rparr>" "''''"]
  by (simp add: getTags_def Let_def Lookup_def)

section \<open>Missing mandatory fields\<close>

text \<open>
  C2. When the field of index \<open>k\<close> is critical, has no default and is absent from the
  environment and from the properties, and the turns of the fields before it return no
  error and leave the struct \<open>ek\<close>, then the call returns the error that names the
  prefixed lookup name, with the struct \<open>ek\<close>: what the earlier turns wrote stays, and
  every field from \<open>k\<close> on is as it was before the call.
\<close>

theorem missing_critical_field_aborts:
  assumes "k < length e"
    and "manageFields_loop PF env props prefix k 0 e = (None, ek)"
    and "Critical (fst (getTags (fst (e ! k))))"
    and "\<not> HasDefault (fst (getTags (fst (e ! k))))"
    and "name = (if prefix = '''' then Name (fst (getTags (fst (e ! k))))
                 else prefix @ ''_'' @ Name (fst (getTags (fst (e ! k)))))"
    and "env name = None"
    and "(case props of Some p \<Rightarrow> p name | None \<Rightarrow> None) = None"
  shows "manageFields PF env (PointerToStruct e) props prefix =
           Return (Some (errors_New (''Critical Config field '' @ name
                                      @ '' missing from the environment''))) ek
         \<and> (\<forall>j. k \<le> j \<longrightarrow> ek ! j = e ! j)"
proof -
  note at = manageFields_at_field [OF assms(1,2)]
  from at(2) assms(3,4,5) have
    "Critical (fst (getTags (fst (ek ! k))))"
    "\<not> HasDefault (fst (getTags (fst (ek ! k))))"
    "name = (if prefix = '''' then Name (fst (getTags (fst (ek ! k))))
             else prefix @ ''_'' @ Name (fst (getTags (fst (ek ! k)))))"
    by simp_all
  from manageField_missing_critical [where e = ek and i = k and PF = PF and env = env
      and props = props and prefix = prefix and name = name, OF this(1,2) assms(6,7) this(3)]
    at(1)
  have "manageFields PF env (PointerToStruct e) props prefix =
           Return (Some (errors_New (''Critical Config field '' @ name
                                      @ '' missing from the environment''))) ek"
    by simp
  moreover have "\<forall>j. k \<le> j \<longrightarrow> ek ! j = e ! j"
    using loop_outside [OF assms(2)] by simp
  ultimately show ?thesis by simp
qed

theorem missing_critical_field_aborts_witness:
  "manageFields no_ParseFloat (map_of []) (PointerToStruct example_schema) None '''' =
     Return (Some (errors_New ''Critical Config field HOST missing from the environment''))
       (example_schema[0 := (fst (example_schema ! 0), IntVal 8080)])
   \<and> (example_schema[0 := (fst (example_schema ! 0), IntVal 8080)]) ! 1 = example_schema ! 1
   \<and> (example_schema[0 := (fst (example_schema ! 0), IntVal 8080)]) ! 2 = example_schema ! 2"
proof -
  have k: "1 < length example_schema" by (simp add: example_schema_def)
  have "ToLower ''True'' = ''true''" by code_simp
  then have c: "Critical (fst (getTags (fst (example_schema ! 1))))"
    by (simp add: example_schema_def getTags_def Lookup_def Let_def)
  have d: "\<not> HasDefault (fst (getTags (fst (example_schema ! 1))))"
    by (simp add: example_schema_def getTags_def Lookup_def Let_def)
  have n: "''HOST'' = (if '''' = '''' then Name (fst (getTags (fst (example_schema ! 1))))
                 else '''' @ ''_'' @ Name (fst (getTags (fst (example_schema ! 1)))))"
    by (simp add: example_schema_def getTags_def Lookup_def Let_def)
  have e: "map_of [] ''HOST'' = (None :: string option)" by simp
  have p: "(case (None :: (string \<rightharpoonup> string) option) of Some p \<Rightarrow> p ''HOST''
            | None \<Rightarrow> None) = None" by simp
  from missing_critical_field_aborts [OF k example_first_turn c d n e p]
  show ?thesis by simp
qed

section \<open>Coercion\<close>

text \<open>
  C3. A field of kind \<^verbatim>\<open>Float64\<close> is never written and never raises a coercion error,
  whatever the value found for it: the branch for floating-point fields tests
  \<^verbatim>\<open>reflect.Float32\<close> twice and \<^verbatim>\<open>reflect.Float64\<close> never. Here the struct has the one
  exported field \<^verbatim>\<open>Rate float64\<close> and the environment sets \<^verbatim>\<open>Rate\<close> to any string
  \<open>v\<close>; the call returns no error and leaves the field as it was.
\<close>

theorem float64_field_ignored:
  "manageFields PF (map_of [(''Rate'', v)])
      (PointerToStruct [(\<lparr>sf_Name = ''Rate'', sf_Kind = Float64, sf_Tag = [],
                           sf_Exported = True\<rparr>, Float64Val x)]) None '''' =
     Return None [(\<lparr>sf_Name = ''Rate'', sf_Kind = Float64, sf_Tag = [],
                    sf_Exported = True\<rparr>, Float64Val x)]"
  by (simp add: manageFields_def manageFields_loop.simps manageField_def
      getTags_def Lookup_def getEnvValue_def Let_def CanSet_def)

text \<open>
  C4. A field of kind \<^verbatim>\<open>Int16\<close> is never written and never raises a coercion error:
  the branch for integer fields lists \<^verbatim>\<open>Int\<close>, \<^verbatim>\<open>Int8\<close>, \<^verbatim>\<open>Int32\<close> and \<^verbatim>\<open>Int64\<close>
  only. Here the struct has the one exported field \<^verbatim>\<open>Port int16\<close> and the environment
  sets \<^verbatim>\<open>Port\<close> to any string \<open>v\<close>; the call returns no error and leaves the field as
  it was.
\<close>

theorem int16_field_ignored:
  "manageFields PF (map_of [(''Port'', v)])
      (PointerToStruct [(\<lparr>sf_Name = ''Port'', sf_Kind = Int16, sf_Tag = [],
                           sf_Exported = True\<rparr>, IntVal x)]) None '''' =
     Return None [(\<lparr>sf_Name = ''Port'', sf_Kind = Int16, sf_Tag = [],
                    sf_Exported = True\<rparr>, IntVal x)]"
  by (simp add: manageFields_def manageFields_loop.simps manageField_def
      getTags_def Lookup_def getEnvValue_def Let_def CanSet_def)

text \<open>
  C5, as the code has it. For a settable field of kind \<^verbatim>\<open>Bool\<close> that the loop reaches
  and for which the lookup produced the string \<open>v\<close>: if \<open>v\<close> is one of \<^verbatim>\<open>1\<close>, \<^verbatim>\<open>t\<close>,
  \<^verbatim>\<open>T\<close>, \<^verbatim>\<open>true\<close>, \<^verbatim>\<open>TRUE\<close>, \<^verbatim>\<open>True\<close> the field is true when the call returns; if it
  is one of \<^verbatim>\<open>0\<close>, \<^verbatim>\<open>f\<close>, \<^verbatim>\<open>F\<close>, \<^verbatim>\<open>false\<close>, \<^verbatim>\<open>FALSE\<close>, \<^verbatim>\<open>False\<close> the field is false;
  for every other string, other casings of these words included, the call returns the
  bool coercion error that names the field by its lookup name, and the struct is as
  the earlier turns left it.
\<close>

theorem bool_field_coercion:
  assumes "i < length e0"
    and "manageFields_loop PF env props prefix i 0 e0 = (None, e)"
    and "sf_Kind (fst (e0 ! i)) = Bool"
    and "CanSet (fst (e0 ! i))"
    and "getEnvValue (fst (getTags (fst (e0 ! i)))) env props prefix = (v, err, True)"
  shows "(v \<in> set [''1'', ''t'', ''T'', ''true'', ''TRUE'', ''True''] \<longrightarrow>
            (\<exists>r e'. manageFields PF env (PointerToStruct e0) props prefix = Return r e'
                     \<and> e' ! i = (fst (e0 ! i), BoolVal True)))
         \<and> (v \<in> set [''0'', ''f'', ''F'', ''false'', ''FALSE'', ''False''] \<longrightarrow>
            (\<exists>r e'. manageFields PF env (PointerToStruct e0) props prefix = Return r e'
                     \<and> e' ! i = (fst (e0 ! i), BoolVal False)))
         \<and> (v \<notin> set [''1'', ''t'', ''T'', ''true'', ''TRUE'', ''True'',
                        ''0'', ''f'', ''F'', ''false'', ''FALSE'', ''False''] \<longrightarrow>
            manageFields PF env (PointerToStruct e0) props prefix =
              Return (Some (errors_New (''Error converting field ''
                                         @ Name (fst (getTags (fst (e0 ! i)))) @ '' to bool'')))
                e)"
proof -
  note at = manageFields_at_field [OF assms(1,2)]
  obtain eTags where t: "getTags (fst (e ! i)) = (eTags, None)"
    using getTags_error [of "fst (e ! i)"] by (cases "getTags (fst (e ! i))") simp
  with at(2) have tg: "fst (getTags (fst (e0 ! i))) = eTags" by simp
  from assms(3,4,5) at(2) t tg
  have turn: "manageField PF env props prefix i e =
      (case ParseBool v of
         None \<Rightarrow> ReturnError (errors_New (''Error converting field '' @ Name eTags
                                           @ '' to bool''))
       | Some b \<Rightarrow> Continue (e[i := (fst (e0 ! i), BoolVal b)]))"
    by (simp add: manageField_def Let_def)
  have written: "\<exists>r e'. manageFields PF env (PointerToStruct e0) props prefix = Return r e'
                     \<and> e' ! i = (fst (e0 ! i), BoolVal b)" if "ParseBool v = Some b" for b
  proof -
    obtain r e' where run: "manageFields_loop PF env props prefix (length e0) (Suc i)
        (e[i := (fst (e0 ! i), BoolVal b)]) = (r, e')"
      by (cases "manageFields_loop PF env props prefix (length e0) (Suc i)
        (e[i := (fst (e0 ! i), BoolVal b)])") auto
    from loop_outside [OF run, of i] assms(1) at(3)
    have "e' ! i = (fst (e0 ! i), BoolVal b)" by simp
    with at(1) turn that run show ?thesis by simp
  qed
  show ?thesis
  proof (intro conjI impI)
    assume "v \<in> set [''1'', ''t'', ''T'', ''true'', ''TRUE'', ''True'']"
    then have "ParseBool v = Some True" by (auto simp: ParseBool_def)
    then show "\<exists>r e'. manageFields PF env (PointerToStruct e0) props prefix = Return r e'
                     \<and> e' ! i = (fst (e0 ! i), BoolVal True)"
      by (rule written)
  next
    assume "v \<in> set [''0'', ''f'', ''F'', ''false'', ''FALSE'', ''False'']"
    then have "ParseBool v = Some False" by (auto simp: ParseBool_def)
    then show "\<exists>r e'. manageFields PF env (PointerToStruct e0) props prefix = Return r e'
                     \<and> e' ! i = (fst (e0 ! i), BoolVal False)"
      by (rule written)
  next
    assume "v \<notin> set [''1'', ''t'', ''T'', ''true'', ''TRUE'', ''True'',
                        ''0'', ''f'', ''F'', ''false'', ''FALSE'', ''False'']"
    then have "ParseBool v = None" by (simp add: ParseBool_def)
    with at(1) turn tg show "manageFields PF env (PointerToStruct e0) props prefix =
              Return (Some (errors_New (''Error converting field ''
                                         @ Name (fst (getTags (fst (e0 ! i)))) @ '' to bool'')))
                e"
      by simp
  qed
qed

theorem bool_field_coercion_witness:
  "(\<exists>r e'. manageFields no_ParseFloat (map_of [(''DEBUG'', ''T'')])
               (PointerToStruct debug_schema) None '''' = Return r e'
            \<and> e' ! 0 = (fst (debug_schema ! 0), BoolVal True))
   \<and> (\<exists>r e'. manageFields no_ParseFloat (map_of [(''HOST'', ''example.com'')])
               (PointerToStruct example_schema) None '''' = Return r e'
            \<and> e' ! 2 = (fst (example_schema ! 2), BoolVal False))
   \<and> manageFields no_ParseFloat (map_of [(''DEBUG'', ''yes'')])
               (PointerToStruct debug_schema) None '''' =
        Return (Some (errors_New ''Error converting field DEBUG to bool'')) debug_schema"
proof -
  have len: "0 < length debug_schema" by (simp add: debug_schema_def)
  have start: "manageFields_loop no_ParseFloat env None '''' 0 0 debug_schema
      = (None, debug_schema)" for env
    by (simp add: manageFields_loop.simps)
  have kind: "sf_Kind (fst (debug_schema ! 0)) = Bool"
    and can: "CanSet (fst (debug_schema ! 0))"
    by (simp_all add: debug_schema_def CanSet_def)
  have val: "getEnvValue (fst (getTags (fst (debug_schema ! 0)))) (map_of [(''DEBUG'', v)])
      None '''' = (v, None, True)" for v
    by (simp add: debug_schema_def getTags_def Lookup_def getEnvValue_def Let_def)
  have name: "Name (fst (getTags (fst (debug_schema ! 0)))) = ''DEBUG''"
    by (simp add: debug_schema_def getTags_def Lookup_def Let_def)
  have len2: "2 < length example_schema" by (simp add: example_schema_def)
  have kind2: "sf_Kind (fst (example_schema ! 2)) = Bool"
    and can2: "CanSet (fst (example_schema ! 2))"
    by (simp_all add: example_schema_def CanSet_def)
  have val2: "getEnvValue (fst (getTags (fst (example_schema ! 2))))
      (map_of [(''HOST'', ''example.com'')]) None '''' = (''false'', None, True)"
    by (simp add: example_schema_def getTags_def Lookup_def getEnvValue_def Let_def)
  from bool_field_coercion [OF len start [of "map_of [(''DEBUG'', ''T'')]"] kind can
      val [of "''T''"]]
  have "\<exists>r e'. manageFields no_ParseFloat (map_of [(''DEBUG'', ''T'')])
               (PointerToStruct debug_schema) None '''' = Return r e'
            \<and> e' ! 0 = (fst (debug_schema ! 0), BoolVal True)"
    by simp
  moreover
  from bool_field_coercion [OF len2 example_two_turns kind2 can2 val2]
  have "\<exists>r e'. manageFields no_ParseFloat (map_of [(''HOST'', ''example.com'')])
               (PointerToStruct example_schema) None '''' = Return r e'
            \<and> e' ! 2 = (fst (example_schema ! 2), BoolVal False)"
    by simp
  moreover
  from bool_field_coercion [OF len start [of "map_of [(''DEBUG'', ''yes'')]"] kind can
      val [of "''yes''"]] name
  have "manageFields no_ParseFloat (map_of [(''DEBUG'', ''yes'')])
               (PointerToStruct debug_schema) None '''' =
        Return (Some (errors_New ''Error converting field DEBUG to bool'')) debug_schema"
    by simp
  ultimately show ?thesis by simp
qed

text \<open>
  The spelling \<^verbatim>\<open>tRUE\<close> of \<^verbatim>\<open>true\<close> is not accepted: the call fails with the bool
  coercion error.
\<close>

theorem bool_mixed_case_counterexample:
  "manageFields no_ParseFloat (map_of [(''DEBUG'', ''tRUE'')]) (PointerToStruct debug_schema)
      None '''' =
     Return (Some (errors_New ''Error converting field DEBUG to bool'')) debug_schema"
  by (simp add: manageFields_def manageFields_loop.simps manageField_def debug_schema_def
      getTags_def Lookup_def getEnvValue_def Let_def CanSet_def ParseBool_def)

section \<open>The shape of the target\<close>

text \<open>
  C6, as the code has it. When the target is not a pointer to a struct (a nil
  interface, a value that is not a pointer, a nil pointer, a pointer to something that
  is not a struct) the load call panics; it returns no error. On a pointer to a struct
  the call returns. \<^verbatim>\<open>getTags\<close> has no failure: its error is always \<^verbatim>\<open>nil\<close>.
\<close>

theorem loadVariables_target_shape:
  "loadVariables PF env LoadFile NilInterface prefix fileName = Panic
   \<and> loadVariables PF env LoadFile NonPointer prefix fileName = Panic
   \<and> loadVariables PF env LoadFile NilPointer prefix fileName = Panic
   \<and> loadVariables PF env LoadFile PointerToNonStruct prefix fileName = Panic
   \<and> (\<exists>err e'. loadVariables PF env LoadFile (PointerToStruct e) prefix fileName
                  = Return err e')
   \<and> snd (getTags f) = None"
  by (simp add: loadVariables_def manageFields_def getTags_error split: prod.splits)

theorem loadVariables_target_shape_witness:
  "loadVariables no_ParseFloat (map_of []) no_file NilInterface '''' ''app.properties'' = Panic
   \<and> loadVariables no_ParseFloat (map_of []) no_file NilPointer '''' ''app.properties'' = Panic
   \<and> loadVariables no_ParseFloat (map_of []) no_file PointerToNonStruct '''' ''app.properties''
       = Panic
   \<and> (\<exists>err e'. loadVariables no_ParseFloat (map_of []) no_file (PointerToStruct example_schema)
                    '''' ''app.properties'' = Return err e')
   \<and> snd (getTags (fst (example_schema ! 1))) = None"
  using loadVariables_target_shape [of no_ParseFloat "map_of []" no_file "''''"
      "''app.properties''" example_schema "fst (example_schema ! 1)"]
  by simp

text \<open>
  A struct passed by value instead of by pointer makes the load call panic.
\<close>

theorem loadVariables_not_struct_counterexample:
  "loadVariables no_ParseFloat (map_of []) no_file NonPointer '''' ''app.properties'' = Panic"
  by (simp add: loadVariables_def manageFields_def)

section \<open>Lookup names and keys\<close>

text \<open>
  C7, as the code has it. The lookup name of a field is the value of its \<^verbatim>\<open>mvenv\<close> tag
  when the tag is present and the declared name of the field otherwise, as written
  (no change of case). It is non-empty when the declared name is non-empty and the
  \<^verbatim>\<open>mvenv\<close> tag is absent or has a non-empty value.
\<close>

theorem getTags_lookup_name:
  "Name (fst (getTags f)) =
     (case Lookup (sf_Tag f) ''mvenv'' of Some v \<Rightarrow> v | None \<Rightarrow> sf_Name f)
   \<and> (sf_Name f \<noteq> '''' \<and> Lookup (sf_Tag f) ''mvenv'' \<noteq> Some '''' \<longrightarrow>
        Name (fst (getTags f)) \<noteq> '''')"
  by (auto simp: getTags_Name split: option.splits)

theorem getTags_lookup_name_witness:
  "Name (fst (getTags \<lparr>sf_Name = ''Host'', sf_Kind = String, sf_Tag = [(''mvenv'', ''hOST'')],
                       sf_Exported = True\<rparr>)) = ''hOST''
   \<and> Name (fst (getTags \<lparr>sf_Name = ''Host'', sf_Kind = String, sf_Tag = [(''mvenv'', ''hOST'')],
                       sf_Exported = True\<rparr>)) \<noteq> ''''
   \<and> Name (fst (getTags \<lparr>sf_Name = ''IntValue'', sf_Kind = Int_kind, sf_Tag = [],
                       sf_Exported = True\<rparr>)) = ''IntValue''
   \<and> Name (fst (getTags \<lparr>sf_Name = ''IntValue'', sf_Kind = Int_kind, sf_Tag = [],
                       sf_Exported = True\<rparr>)) \<noteq> ''''"
  using getTags_lookup_name [of "\<lparr>sf_Name = ''Host'', sf_Kind = String,
        sf_Tag = [(''mvenv'', ''hOST'')], sf_Exported = True\<rparr>"]
    getTags_lookup_name [of "\<lparr>sf_Name = ''IntValue'', sf_Kind = Int_kind, sf_Tag = [],
        sf_Exported = True\<rparr>"]
  by (simp add: Lookup_def)

text \<open>
  With the tag \<^verbatim>\<open>mvenv:""\<close> the lookup name is the empty string.
\<close>

theorem getTags_empty_override_counterexample:
  "Name (fst (getTags \<lparr>sf_Name = ''Port'', sf_Kind = Int_kind, sf_Tag = [(''mvenv'', '''')],
                       sf_Exported = True\<rparr>)) = ''''"
  by (simp add: getTags_def Lookup_def Let_def)

text \<open>
  C8. The key looked up in the environment and in the properties is the lookup name
  when the prefix is empty, and otherwise the prefix, an underscore and the lookup
  name: the result of \<^verbatim>\<open>getEnvValue\<close> depends on the two sources only through their
  values at this key, and a value the environment or the properties hold at this key
  is the value returned. With the prefix \<^verbatim>\<open>APP\<close> and the lookup name \<^verbatim>\<open>PORT\<close> the key is
  \<^verbatim>\<open>APP_PORT\<close>.
\<close>

theorem getEnvValue_queried_key:
  "(let name = (if prefix = '''' then Name eTags else prefix @ ''_'' @ Name eTags) in
     (env name = env' name \<and>
      (case props of Some p \<Rightarrow> p name | None \<Rightarrow> None)
        = (case props' of Some p \<Rightarrow> p name | None \<Rightarrow> None) \<longrightarrow>
        getEnvValue eTags env props prefix = getEnvValue eTags env' props' prefix) \<and>
     (env name = Some v \<longrightarrow> fst (getEnvValue eTags env props prefix) = v) \<and>
     (env name = None \<and> props = Some p \<and> p name = Some v \<longrightarrow>
        fst (getEnvValue eTags env props prefix) = v))"
proof -
  define name where "name = (if prefix = '''' then Name eTags else prefix @ ''_'' @ Name eTags)"
  have eq: "(if prefix \<noteq> '''' then prefix @ ''_'' @ Name eTags else Name eTags) = name"
    by (simp add: name_def)
  have "(env name = env' name \<and>
      (case props of Some p \<Rightarrow> p name | None \<Rightarrow> None)
        = (case props' of Some p \<Rightarrow> p name | None \<Rightarrow> None) \<longrightarrow>
        getEnvValue eTags env props prefix = getEnvValue eTags env' props' prefix) \<and>
     (env name = Some v \<longrightarrow> fst (getEnvValue eTags env props prefix) = v) \<and>
     (env name = None \<and> props = Some p \<and> p name = Some v \<longrightarrow>
        fst (getEnvValue eTags env props prefix) = v)"
  proof (intro conjI impI)
    assume "env name = env' name \<and>
      (case props of Some p \<Rightarrow> p name | None \<Rightarrow> None)
        = (case props' of Some p \<Rightarrow> p name | None \<Rightarrow> None)"
    then have a: "env name = env' name"
      and b: "(case props of Some p \<Rightarrow> p name | None \<Rightarrow> None)
        = (case props' of Some p \<Rightarrow> p name | None \<Rightarrow> None)"
      by simp_all
    show "getEnvValue eTags env props prefix = getEnvValue eTags env' props' prefix"
      unfolding getEnvValue_def Let_def eq a b ..
  next
    assume "env name = Some v"
    then show "fst (getEnvValue eTags env props prefix) = v"
      unfolding getEnvValue_def Let_def eq by simp
  next
    assume "env name = None \<and> props = Some p \<and> p name = Some v"
    then show "fst (getEnvValue eTags env props prefix) = v"
      unfolding getEnvValue_def Let_def eq by simp
  qed
  then show ?thesis
    unfolding Let_def name_def .
qed

theorem getEnvValue_queried_key_witness:
  "getEnvValue \<lparr>Name = ''PORT'', Critical = False, HasDefault = False, Default = ''''\<rparr>
      (map_of [(''PORT'', ''1''), (''APP_PORT'', ''8080'')]) None ''APP''
     = getEnvValue \<lparr>Name = ''PORT'', Critical = False, HasDefault = False, Default = ''''\<rparr>
      (map_of [(''APP_PORT'', ''8080'')]) (Some (map_of [(''PORT'', ''2'')])) ''APP''
   \<and> fst (getEnvValue \<lparr>Name = ''PORT'', Critical = False, HasDefault = False, Default = ''''\<rparr>
      (map_of [(''PORT'', ''1''), (''APP_PORT'', ''8080'')]) None ''APP'') = ''8080''
   \<and> fst (getEnvValue \<lparr>Name = ''PORT'', Critical = False, HasDefault = False, Default = ''''\<rparr>
      (map_of [(''PORT'', ''1'')]) (Some (map_of [(''APP_PORT'', ''9090'')])) ''APP'') = ''9090''
   \<and> fst (getEnvValue \<lparr>Name = ''PORT'', Critical = False, HasDefault = False, Default = ''''\<rparr>
      (map_of [(''PORT'', ''1'')]) None '''') = ''1''"
  using getEnvValue_queried_key
    [of "''APP''" "\<lparr>Name = ''PORT'', Critical = False, HasDefault = False, Default = ''''\<rparr>"
        "map_of [(''PORT'', ''1''), (''APP_PORT'', ''8080'')]"
        "map_of [(''APP_PORT'', ''8080'')]" None "Some (map_of [(''PORT'', ''2'')])" "''8080''"]
    getEnvValue_queried_key
    [of "''APP''" "\<lparr>Name = ''PORT'', Critical = False, HasDefault = False, Default = ''''\<rparr>"
        "map_of [(''PORT'', ''1'')]" "map_of [(''PORT'', ''1'')]"
        "Some (map_of [(''APP_PORT'', ''9090'')])" "Some (map_of [(''APP_PORT'', ''9090'')])"
        "''9090''" "map_of [(''APP_PORT'', ''9090'')]"]
    getEnvValue_queried_key
    [of "''''" "\<lparr>Name = ''PORT'', Critical = False, HasDefault = False, Default = ''''\<rparr>"
        "map_of [(''PORT'', ''1'')]" "map_of [(''PORT'', ''1'')]" None None "''1''"]
  by (simp add: Let_def getEnvValue_def)

section \<open>The properties file\<close>

text \<open>
  C9. When loading the properties file fails, whatever the error, the load call is the
  call of \<^verbatim>\<open>manageFields\<close> without properties: it resolves the fields from the
  environment and the defaults, and the error of the file is not part of its result.
\<close>

theorem loadVariables_properties_failure:
  "LoadFile fileName = Inl err \<Longrightarrow>
   loadVariables PF env LoadFile envStruct prefix fileName =
     manageFields PF env envStruct None prefix"
  by (simp add: loadVariables_def)

theorem loadVariables_properties_failure_witness:
  "loadVariables no_ParseFloat (map_of [(''HOST'', ''example.com'')]) no_file
      (PointerToStruct example_schema) '''' ''app.properties'' =
     Return None
       [(fst (example_schema ! 0), IntVal 8080),
        (fst (example_schema ! 1), StringVal ''example.com''),
        (fst (example_schema ! 2), BoolVal False)]"
proof -
  have "no_file ''app.properties'' = Inl (errors_New ''no such file'')"
    by (simp add: no_file_def)
  from loadVariables_properties_failure [where LoadFile = no_file
      and fileName = "''app.properties''" and PF = no_ParseFloat, OF this] example_with_host
  show ?thesis by simp
qed

section \<open>Defaults and mandatory fields\<close>

text \<open>
  C10. The turn of a field that declares a default never returns the
  missing-critical-field error, whatever its \<^verbatim>\<open>crit\<close> tag, the environment and the
  properties. And when the call returns the missing-critical-field error for a name,
  the struct has a critical field without default whose prefixed lookup name is that
  name and which neither the environment nor the properties hold.
\<close>

theorem default_shadows_critical:
  "(Lookup (sf_Tag (fst (e ! i))) ''def'' = Some d \<longrightarrow>
      manageField PF env props prefix i e \<noteq>
        ReturnError (errors_New (''Critical Config field '' @ nm
                                  @ '' missing from the environment'')))
   \<and> (manageFields PF env (PointerToStruct e) props prefix =
        Return (Some (errors_New (''Critical Config field '' @ nm
                                   @ '' missing from the environment''))) e' \<longrightarrow>
      (\<exists>k < length e. Lookup (sf_Tag (fst (e ! k))) ''def'' = None
          \<and> Critical (fst (getTags (fst (e ! k))))
          \<and> nm = (if prefix = '''' then Name (fst (getTags (fst (e ! k))))
                   else prefix @ ''_'' @ Name (fst (getTags (fst (e ! k)))))
          \<and> env nm = None
          \<and> (case props of Some p \<Rightarrow> p nm | None \<Rightarrow> None) = None))"
proof (intro conjI impI)
  assume "Lookup (sf_Tag (fst (e ! i))) ''def'' = Some d"
  then have "HasDefault (fst (getTags (fst (e ! i))))"
    by (simp add: getTags_HasDefault)
  with manageField_critical_error [of PF env props prefix i e nm]
  show "manageField PF env props prefix i e \<noteq>
        ReturnError (errors_New (''Critical Config field '' @ nm
                                  @ '' missing from the environment''))"
    by blast
next
  assume "manageFields PF env (PointerToStruct e) props prefix =
        Return (Some (errors_New (''Critical Config field '' @ nm
                                   @ '' missing from the environment''))) e'"
  then have "manageFields_loop PF env props prefix (length e) 0 e =
     (Some (errors_New (''Critical Config field '' @ nm @ '' missing from the environment'')),
      e')"
    by (simp add: manageFields_def split: prod.splits)
  from loop_critical_error [OF this]
  show "\<exists>k < length e. Lookup (sf_Tag (fst (e ! k))) ''def'' = None
          \<and> Critical (fst (getTags (fst (e ! k))))
          \<and> nm = (if prefix = '''' then Name (fst (getTags (fst (e ! k))))
                   else prefix @ ''_'' @ Name (fst (getTags (fst (e ! k)))))
          \<and> env nm = None
          \<and> (case props of Some p \<Rightarrow> p nm | None \<Rightarrow> None) = None"
    by (auto simp: getTags_HasDefault)
qed

theorem default_shadows_critical_witness:
  "manageField no_ParseFloat (map_of []) None '''' 0 crit_default_schema \<noteq>
     ReturnError (errors_New ''Critical Config field Host missing from the environment'')
   \<and> (\<exists>k < length example_schema.
         Lookup (sf_Tag (fst (example_schema ! k))) ''def'' = None
         \<and> Critical (fst (getTags (fst (example_schema ! k))))
         \<and> ''HOST'' = Name (fst (getTags (fst (example_schema ! k)))))"
proof -
  have d: "Lookup (sf_Tag (fst (crit_default_schema ! 0))) ''def'' = Some ''localhost''"
    by (simp add: crit_default_schema_def Lookup_def)
  note th = default_shadows_critical [where e = crit_default_schema and i = 0
      and d = "''localhost''" and PF = no_ParseFloat and env = "map_of []" and props = None
      and prefix = "''''" and nm = "''Host''"]
    default_shadows_critical [where e = example_schema and PF = no_ParseFloat
      and env = "map_of []" and props = None and prefix = "''''" and nm = "''HOST''"
      and e' = "[(fst (example_schema ! 0), IntVal 8080), example_schema ! 1,
                 example_schema ! 2]"]
  from th(1) d have "manageField no_ParseFloat (map_of []) None '''' 0 crit_default_schema \<noteq>
     ReturnError (errors_New ''Critical Config field Host missing from the environment'')"
    by simp
  moreover from th(2) example_missing_host
  have "\<exists>k < length example_schema.
         Lookup (sf_Tag (fst (example_schema ! k))) ''def'' = None
         \<and> Critical (fst (getTags (fst (example_schema ! k))))
         \<and> ''HOST'' = Name (fst (getTags (fst (example_schema ! k))))"
    by simp
  ultimately show ?thesis by simp
qed

end
